theory Spec2Isabelle
  imports Complex_Main
begin

section \<open>JavaScript numbers\<close>

text \<open>
  The components compute with JavaScript numbers. A number is modelled as a real, one of
  the two infinities, or NaN; the arithmetic below follows IEEE 754 on these four kinds
  (division by zero, \<open>0 * Infinity\<close>, \<open>Infinity - Infinity\<close>, NaN propagation through
  \<open>Math.min\<close> and \<open>Math.max\<close>). Rounding, overflow and the sign of zero are not modelled:
  a finite result is the exact real, and a zero divisor is the positive zero that a DOM
  measurement yields.
\<close>

datatype jsnum = Fin real | PosInf | NegInf | NaN

fun js_neg :: "jsnum \<Rightarrow> jsnum" where
  "js_neg (Fin a) = Fin (- a)"
| "js_neg PosInf = NegInf"
| "js_neg NegInf = PosInf"
| "js_neg NaN = NaN"

fun js_add :: "jsnum \<Rightarrow> jsnum \<Rightarrow> jsnum" where
  "js_add NaN _ = NaN"
| "js_add _ NaN = NaN"
| "js_add (Fin a) (Fin b) = Fin (a + b)"
| "js_add PosInf NegInf = NaN"
| "js_add NegInf PosInf = NaN"
| "js_add PosInf _ = PosInf"
| "js_add _ PosInf = PosInf"
| "js_add NegInf _ = NegInf"
| "js_add _ NegInf = NegInf"

definition js_sub :: "jsnum \<Rightarrow> jsnum \<Rightarrow> jsnum" where
  "js_sub a b = js_add a (js_neg b)"

fun js_mul :: "jsnum \<Rightarrow> jsnum \<Rightarrow> jsnum" where
  "js_mul NaN _ = NaN"
| "js_mul _ NaN = NaN"
| "js_mul (Fin a) (Fin b) = Fin (a * b)"
| "js_mul (Fin a) PosInf = (if a = 0 then NaN else if 0 < a then PosInf else NegInf)"
| "js_mul (Fin a) NegInf = (if a = 0 then NaN else if 0 < a then NegInf else PosInf)"
| "js_mul PosInf (Fin b) = (if b = 0 then NaN else if 0 < b then PosInf else NegInf)"
| "js_mul NegInf (Fin b) = (if b = 0 then NaN else if 0 < b then NegInf else PosInf)"
| "js_mul PosInf PosInf = PosInf"
| "js_mul PosInf NegInf = NegInf"
| "js_mul NegInf PosInf = NegInf"
| "js_mul NegInf NegInf = PosInf"

fun js_div :: "jsnum \<Rightarrow> jsnum \<Rightarrow> jsnum" where
  "js_div NaN _ = NaN"
| "js_div _ NaN = NaN"
| "js_div (Fin a) (Fin b) =
     (if b \<noteq> 0 then Fin (a / b)
      else if 0 < a then PosInf else if a < 0 then NegInf else NaN)"
| "js_div (Fin a) _ = Fin 0"
| "js_div PosInf (Fin b) = (if 0 \<le> b then PosInf else NegInf)"
| "js_div NegInf (Fin b) = (if 0 \<le> b then NegInf else PosInf)"
| "js_div _ _ = NaN"

fun js_min :: "jsnum \<Rightarrow> jsnum \<Rightarrow> jsnum" where
  "js_min NaN _ = NaN"
| "js_min _ NaN = NaN"
| "js_min NegInf _ = NegInf"
| "js_min _ NegInf = NegInf"
| "js_min PosInf b = b"
| "js_min a PosInf = a"
| "js_min (Fin a) (Fin b) = Fin (min a b)"

fun js_max :: "jsnum \<Rightarrow> jsnum \<Rightarrow> jsnum" where
  "js_max NaN _ = NaN"
| "js_max _ NaN = NaN"
| "js_max PosInf _ = PosInf"
| "js_max _ PosInf = PosInf"
| "js_max NegInf b = b"
| "js_max a NegInf = a"
| "js_max (Fin a) (Fin b) = Fin (max a b)"



section \<open>The zoom hook of the diagram view (ChatInterface.tsx, useD3Zoom)\<close>

subsection \<open>View transforms\<close>

text \<open>
  A view transform is the zoom transform of the library: a scale \<open>k\<close> and a translation.
  \<open>zoomIdentity.translate(x, y).scale(k)\<close> is built with the library's two methods:
  \<open>translate\<close> adds the translation scaled by the current scale, \<open>scale\<close> multiplies the
  scale; both return the receiver itself for a neutral argument.
\<close>

record ViewTransform =
  scale :: jsnum
  translateX :: jsnum
  translateY :: jsnum

definition zoomIdentity :: ViewTransform where
  "zoomIdentity = \<lparr>scale = Fin 1, translateX = Fin 0, translateY = Fin 0\<rparr>"

definition transform_translate :: "ViewTransform \<Rightarrow> jsnum \<Rightarrow> jsnum \<Rightarrow> ViewTransform" where
  "transform_translate t x y =
     (if x = Fin 0 \<and> y = Fin 0 then t
      else \<lparr>scale = scale t,
            translateX = js_add (translateX t) (js_mul (scale t) x),
            translateY = js_add (translateY t) (js_mul (scale t) y)\<rparr>)"

definition transform_scale :: "ViewTransform \<Rightarrow> jsnum \<Rightarrow> ViewTransform" where
  "transform_scale t k =
     (if k = Fin 1 then t
      else \<lparr>scale = js_mul (scale t) k, translateX = translateX t, translateY = translateY t\<rparr>)"

subsection \<open>Measurements\<close>

text \<open>
  \<open>getBoundingClientRect()\<close> of the svg element and \<open>getBBox()\<close> of the content group.
  DOM measurements are finite numbers. \<open>getBBox()\<close> may throw; the snapshot then holds
  no box.
\<close>

record DOMRect =
  rect_width :: real
  rect_height :: real

record SVGRect =
  box_x :: real
  box_y :: real
  box_width :: real
  box_height :: real

record domSnapshot =
  boundingClientRect :: DOMRect
  bbox :: "SVGRect option"

subsection \<open>The hook's state\<close>

text \<open>
  \<open>selectionRef\<close> and \<open>zoomRef\<close> are the hook's two refs (set or not). \<open>zoom_transform\<close> is
  the transform the zoom behaviour keeps on the svg element: absent on an element the
  behaviour was never applied to.
\<close>

record zoomHook =
  selectionRef :: bool
  zoomRef :: bool
  zoom_transform :: "ViewTransform option"

definition freshHook :: zoomHook where
  "freshHook = \<lparr>selectionRef = False, zoomRef = False, zoom_transform = None\<rparr>"

text \<open>Applying the zoom behaviour to a selection keeps an element's transform, or
  initialises it to the identity.\<close>

definition defaultTransform :: "ViewTransform option \<Rightarrow> ViewTransform" where
  "defaultTransform z = (case z of None \<Rightarrow> zoomIdentity | Some t \<Rightarrow> t)"

subsection \<open>The effect: attach the zoom behaviour, then centre and fit\<close>

text \<open>Lines 92 to 113: the scale that fits, capped at 1, and the centring translation.\<close>

definition initialTransform :: "DOMRect \<Rightarrow> SVGRect \<Rightarrow> ViewTransform" where
  "initialTransform parentRect graphBox =
     (let parentWidth = Fin (rect_width parentRect);
          parentHeight = Fin (rect_height parentRect);
          padding = Fin 40;
          scale0 = js_min (js_div (js_sub parentWidth padding) (Fin (box_width graphBox)))
                          (js_div (js_sub parentHeight padding) (Fin (box_height graphBox)));
          initialScale = js_min scale0 (Fin 1);
          x = js_sub (js_div (js_sub parentWidth (js_mul (Fin (box_width graphBox)) initialScale)) (Fin 2))
                     (js_mul (Fin (box_x graphBox)) initialScale);
          y = js_sub (js_div (js_sub parentHeight (js_mul (Fin (box_height graphBox)) initialScale)) (Fin 2))
                     (js_mul (Fin (box_y graphBox)) initialScale)
      in transform_scale (transform_translate zoomIdentity x y) initialScale)"

text \<open>
  The effect of \<open>useD3Zoom\<close>. With no container, no svg or no content group (\<open>None\<close>) it
  returns at once. Otherwise it sets the refs and applies the zoom behaviour; then, inside
  \<open>try\<close>: a box of zero width or height returns before any centring; any other box gives
  the initial transform, applied as it is; an exception falls back to the identity.
\<close>

definition useD3Zoom_effect :: "zoomHook \<Rightarrow> domSnapshot option \<Rightarrow> zoomHook" where
  "useD3Zoom_effect st snap =
     (case snap of
        None \<Rightarrow> st
      | Some m \<Rightarrow>
          let st1 = st\<lparr>selectionRef := True, zoomRef := True,
                      zoom_transform := Some (defaultTransform (zoom_transform st))\<rparr>
          in (case bbox m of
                None \<Rightarrow> st1\<lparr>zoom_transform := Some zoomIdentity\<rparr>
              | Some graphBox \<Rightarrow>
                  if box_width graphBox = 0 \<or> box_height graphBox = 0 then st1
                  else st1\<lparr>zoom_transform := Some (initialTransform (boundingClientRect m) graphBox)\<rparr>))"

text \<open>The fit of a freshly rendered diagram: the transform its svg element carries after
  the effect has run on it.\<close>

definition fit :: "DOMRect \<Rightarrow> SVGRect \<Rightarrow> ViewTransform option" where
  "fit parentRect graphBox =
     zoom_transform (useD3Zoom_effect freshHook
       (Some \<lparr>boundingClientRect = parentRect, bbox = Some graphBox\<rparr>))"

subsection \<open>Reset\<close>

text \<open>
  \<open>resetZoom\<close> (lines 126 to 159). Without the refs it does nothing. Otherwise it measures
  again and recomputes scale and translation with its own copy of the arithmetic (it has
  no test for a box of zero size), and starts a transition of 750 ms to that transform;
  with no svg or group node, or on an exception, the transition goes to the identity.
  The state after \<open>resetZoom\<close> is the resting state of the transition, its target.
\<close>

definition resetTransform :: "DOMRect \<Rightarrow> SVGRect \<Rightarrow> ViewTransform" where
  "resetTransform parentRect graphBox =
     (let scale0 = js_min (js_div (js_sub (Fin (rect_width parentRect)) (Fin 40)) (Fin (box_width graphBox)))
                          (js_div (js_sub (Fin (rect_height parentRect)) (Fin 40)) (Fin (box_height graphBox)));
          initialScale = js_min scale0 (Fin 1);
          x = js_sub (js_div (js_sub (Fin (rect_width parentRect))
                                     (js_mul (Fin (box_width graphBox)) initialScale)) (Fin 2))
                     (js_mul (Fin (box_x graphBox)) initialScale);
          y = js_sub (js_div (js_sub (Fin (rect_height parentRect))
                                     (js_mul (Fin (box_height graphBox)) initialScale)) (Fin 2))
                     (js_mul (Fin (box_y graphBox)) initialScale)
      in transform_scale (transform_translate zoomIdentity x y) initialScale)"

definition resetZoom :: "zoomHook \<Rightarrow> domSnapshot option \<Rightarrow> zoomHook" where
  "resetZoom st snap =
     (if \<not> selectionRef st \<or> \<not> zoomRef st then st
      else (case snap of
              Some m \<Rightarrow>
                (case bbox m of
                   Some graphBox \<Rightarrow>
                     st\<lparr>zoom_transform := Some (resetTransform (boundingClientRect m) graphBox)\<rparr>
                 | None \<Rightarrow> st\<lparr>zoom_transform := Some zoomIdentity\<rparr>)
            | None \<Rightarrow> st\<lparr>zoom_transform := Some zoomIdentity\<rparr>))"

text \<open>\<open>reset\<close> on the diagram that \<open>fit\<close> was computed for: the hook has run its effect on
  the fresh element, then \<open>resetZoom\<close> is called with the same measurements.\<close>

definition reset :: "DOMRect \<Rightarrow> SVGRect \<Rightarrow> ViewTransform option" where
  "reset parentRect graphBox =
     (let m = \<lparr>boundingClientRect = parentRect, bbox = Some graphBox\<rparr>
      in zoom_transform (resetZoom (useD3Zoom_effect freshHook (Some m)) (Some m)))"


subsection \<open>User gestures\<close>

text \<open>
  Modelled from the spec: the wheel and pan handlers are the zoom library's and are not in
  the sources; the source only configures the behaviour with \<open>scaleExtent([0.1, 8])\<close> and
  disables double-click zoom. A wheel gesture multiplies the scale by a positive factor,
  clamps it to the scale extent and keeps the point under the pointer where it is; a pan
  gesture moves the translation and leaves the scale alone.
\<close>

definition scaleExtent :: "real \<times> real" where
  "scaleExtent = (1 / 10, 8)"

definition wheelZoom :: "real \<Rightarrow> real \<times> real \<Rightarrow> ViewTransform \<Rightarrow> ViewTransform" where
  "wheelZoom factor p t =
     (let k = js_max (Fin (fst scaleExtent))
                (js_min (Fin (snd scaleExtent)) (js_mul (scale t) (Fin factor)));
          qx = js_div (js_sub (Fin (fst p)) (translateX t)) (scale t);
          qy = js_div (js_sub (Fin (snd p)) (translateY t)) (scale t)
      in \<lparr>scale = k,
          translateX = js_sub (Fin (fst p)) (js_mul qx k),
          translateY = js_sub (Fin (snd p)) (js_mul qy k)\<rparr>)"

definition panBy :: "real \<times> real \<Rightarrow> ViewTransform \<Rightarrow> ViewTransform" where
  "panBy delta t =
     \<lparr>scale = scale t,
      translateX = js_add (translateX t) (Fin (fst delta)),
      translateY = js_add (translateY t) (Fin (snd delta))\<rparr>"


section \<open>The dependency graph component (DependencyGraph)\<close>

subsection \<open>Input data (types.ts)\<close>

datatype category = Language | Framework | Library | Tool | Database | Core

record DependencyNode =
  node_id :: string
  category :: category

record DependencyLink =
  source :: string
  target :: string

subsection \<open>Simulation state\<close>

text \<open>
  A simulation node is the clone \<open>{ ...d }\<close> of an input node with the fields the force
  simulation adds to it: position, velocity and the optional pin \<open>fx\<close>, \<open>fy\<close> (\<open>null\<close> is
  \<open>None\<close>). The simulation holds the nodes, the links, the four configured forces
  (link distance 100, charge strength -300, centre, collision radius 30) and the cooling
  state: \<open>alpha\<close>, its threshold, its decay rate and its target, and whether the timer runs.
\<close>

record simNode = DependencyNode +
  pos_x :: jsnum
  pos_y :: jsnum
  vel_x :: jsnum
  vel_y :: jsnum
  fx :: "jsnum option"
  fy :: "jsnum option"

record simulation =
  sim_nodes :: "simNode list"
  sim_links :: "DependencyLink list"
  link_distance :: real
  charge_strength :: real
  center_x :: real
  center_y :: real
  collide_radius :: real
  alpha :: real
  alphaMin :: real
  alphaDecay :: real
  alphaTarget :: real
  running :: bool

text \<open>
  The force library is not part of the sources. What \<open>forceSimulation(nodes)\<close> starts from
  is a parameter: the initial \<open>alpha\<close>, the stop threshold, the decay rate, and the seed
  position given to the node of each index (the input nodes carry no position).
\<close>

record simDefaults =
  alpha0 :: real
  alphaMin0 :: real
  alphaDecay0 :: real
  seed_x :: "nat \<Rightarrow> real"
  seed_y :: "nat \<Rightarrow> real"

datatype error = NodeNotFound string

subsection \<open>Building the simulation (lines 43 to 58)\<close>

definition cloneNode :: "simDefaults \<Rightarrow> nat \<times> DependencyNode \<Rightarrow> simNode" where
  "cloneNode d p =
     (case p of (i, n) \<Rightarrow>
        \<lparr>node_id = node_id n, category = category n,
         pos_x = Fin (seed_x d i), pos_y = Fin (seed_y d i),
         vel_x = Fin 0, vel_y = Fin 0, fx = None, fy = None\<rparr>)"

text \<open>
  The link force resolves the endpoints of every link, in order, through the id accessor
  \<open>d => d.id\<close>, and throws for an id that no node has: the crash the source's comment
  (``ensure source and target exist in nodes to prevent D3 crashes'') speaks of.
\<close>

definition forceLink :: "simNode list \<Rightarrow> DependencyLink list \<Rightarrow> error + DependencyLink list" where
  "forceLink nodes links =
     (let ids = set (map node_id nodes) in
      case find (\<lambda>l. source l \<notin> ids \<or> target l \<notin> ids) links of
        None \<Rightarrow> Inr links
      | Some l \<Rightarrow> Inl (NodeNotFound (if source l \<notin> ids then source l else target l)))"

definition buildSimulation ::
    "simDefaults \<Rightarrow> real \<Rightarrow> real \<Rightarrow> DependencyNode list \<Rightarrow> DependencyLink list \<Rightarrow> error + simulation" where
  "buildSimulation d width height nodes links =
     (let simulationNodes = map (cloneNode d) (enumerate 0 nodes);
          nodeIds = set (map node_id simulationNodes);
          simulationLinks = filter (\<lambda>l. source l \<in> nodeIds \<and> target l \<in> nodeIds) links
      in case forceLink simulationNodes simulationLinks of
           Inl e \<Rightarrow> Inl e
         | Inr resolved \<Rightarrow>
             Inr \<lparr>sim_nodes = simulationNodes, sim_links = resolved,
                  link_distance = 100, charge_strength = - 300,
                  center_x = width / 2, center_y = height / 2, collide_radius = 30,
                  alpha = alpha0 d, alphaMin = alphaMin0 d, alphaDecay = alphaDecay0 d,
                  alphaTarget = 0, running = True\<rparr>)"

subsection \<open>The tick handler (lines 122 to 136)\<close>

text \<open>\<open>Math.max(20, Math.min(width - 20, d.x))\<close>, and the same for \<open>y\<close> with the height.\<close>

definition clampTo :: "real \<Rightarrow> jsnum \<Rightarrow> jsnum" where
  "clampTo extent v = js_max (Fin 20) (js_min (Fin (extent - 20)) v)"

definition onTick :: "real \<Rightarrow> real \<Rightarrow> simulation \<Rightarrow> simulation" where
  "onTick width height s =
     s\<lparr>sim_nodes := map (\<lambda>n. n\<lparr>pos_x := clampTo width (pos_x n),
                                 pos_y := clampTo height (pos_y n)\<rparr>) (sim_nodes s)\<rparr>"

subsection \<open>The simulator's tick and timer\<close>

text \<open>
  Modelled from the spec: the integrator is the force library's (\<open>forceSimulation\<close>), which
  is not in the sources. Per tick, \<open>alpha\<close> moves towards its target by the decay rate
  (with target 0 it decays geometrically); the velocity of an unpinned node is the sum of
  the forces on it times \<open>alpha\<close> and its position moves by the velocity; a pinned
  coordinate is set to the pin and its velocity is held at zero. The forces themselves
  (repulsion, springs, centring, collision) are a parameter: any function of the state and
  the node. A timer step is one tick, then the component's tick handler, then the stop
  test: below the threshold the timer stops.
\<close>

type_synonym forces = "simulation \<Rightarrow> simNode \<Rightarrow> jsnum \<times> jsnum"

definition moveNode :: "real \<Rightarrow> jsnum \<times> jsnum \<Rightarrow> simNode \<Rightarrow> simNode" where
  "moveNode a force n =
     (let n1 = (case fx n of
                  None \<Rightarrow> (let v = js_mul (fst force) (Fin a)
                            in n\<lparr>vel_x := v, pos_x := js_add (pos_x n) v\<rparr>)
                | Some px \<Rightarrow> n\<lparr>pos_x := px, vel_x := Fin 0\<rparr>)
      in (case fy n1 of
            None \<Rightarrow> (let v = js_mul (snd force) (Fin a)
                      in n1\<lparr>vel_y := v, pos_y := js_add (pos_y n1) v\<rparr>)
          | Some py \<Rightarrow> n1\<lparr>pos_y := py, vel_y := Fin 0\<rparr>))"

definition tick :: "forces \<Rightarrow> simulation \<Rightarrow> simulation" where
  "tick F s =
     (let a = alpha s + (alphaTarget s - alpha s) * alphaDecay s
      in s\<lparr>alpha := a, sim_nodes := map (\<lambda>n. moveNode a (F s n) n) (sim_nodes s)\<rparr>)"

definition timerStep :: "forces \<Rightarrow> real \<Rightarrow> real \<Rightarrow> simulation \<Rightarrow> simulation" where
  "timerStep F width height s =
     (let s1 = onTick width height (tick F s)
      in if alpha s1 < alphaMin s1 then s1\<lparr>running := False\<rparr> else s1)"

text \<open>The timer: steps while it runs. \<open>None\<close> when the fuel ends with the timer still
  running.\<close>

fun runTimer :: "forces \<Rightarrow> real \<Rightarrow> real \<Rightarrow> nat \<Rightarrow> simulation \<Rightarrow> simulation option" where
  "runTimer F width height 0 s = (if running s then None else Some s)"
| "runTimer F width height (Suc fuel) s =
     (if running s then runTimer F width height fuel (timerStep F width height s) else Some s)"

subsection \<open>Drag handlers (lines 138 to 160)\<close>

text \<open>
  \<open>event.subject\<close> is a node object of the simulation: its index in the node list.
  \<open>event.active\<close> counts the other drag gestures in progress. \<open>restart()\<close> starts the timer
  again.
\<close>

record dragEvent =
  active :: nat
  subject :: nat
  event_x :: real
  event_y :: real

definition restart :: "simulation \<Rightarrow> simulation" where
  "restart s = s\<lparr>running := True\<rparr>"

definition updateSubject :: "nat \<Rightarrow> (simNode \<Rightarrow> simNode) \<Rightarrow> simulation \<Rightarrow> simulation" where
  "updateSubject i f s =
     (if i < length (sim_nodes s) then s\<lparr>sim_nodes := (sim_nodes s)[i := f (sim_nodes s ! i)]\<rparr>
      else s)"

definition dragstarted :: "dragEvent \<Rightarrow> simulation \<Rightarrow> simulation" where
  "dragstarted event s =
     (let s1 = (if active event = 0 then restart (s\<lparr>alphaTarget := 3 / 10\<rparr>) else s)
      in updateSubject (subject event) (\<lambda>n. n\<lparr>fx := Some (pos_x n), fy := Some (pos_y n)\<rparr>) s1)"

definition dragged :: "dragEvent \<Rightarrow> simulation \<Rightarrow> simulation" where
  "dragged event s =
     updateSubject (subject event)
       (\<lambda>n. n\<lparr>fx := Some (Fin (event_x event)), fy := Some (Fin (event_y event))\<rparr>) s"

definition dragended :: "dragEvent \<Rightarrow> simulation \<Rightarrow> simulation" where
  "dragended event s =
     (let s1 = (if active event = 0 then s\<lparr>alphaTarget := 0\<rparr> else s)
      in updateSubject (subject event) (\<lambda>n. n\<lparr>fx := None, fy := None\<rparr>) s1)"

subsection \<open>The component's effect (lines 37 to 165)\<close>

text \<open>
  The component's state: whether the svg element is mounted, what is drawn in it, and the
  simulation of the last effect that built one. The effect returns at once without an svg
  element or with an empty node list; otherwise it removes everything drawn, builds the
  simulation and draws the marker definitions, one line per simulation link and one group
  (circle, label, tooltip) per simulation node. The cleanup of an effect that built a
  simulation stops it.
\<close>

datatype svgElement =
    ArrowMarker
  | LinkLine DependencyLink
  | NodeGroup string category

record graphView =
  svgRef :: bool
  drawn :: "svgElement list"
  view_simulation :: "simulation option"

record dimensions =
  dim_width :: real
  dim_height :: real

definition graphEffect ::
    "simDefaults \<Rightarrow> graphView \<Rightarrow> dimensions \<Rightarrow> DependencyNode list \<Rightarrow> DependencyLink list
      \<Rightarrow> error + graphView" where
  "graphEffect d v dims nodes links =
     (if \<not> svgRef v \<or> length nodes = 0 then Inr v
      else
        (case buildSimulation d (dim_width dims) (dim_height dims) nodes links of
           Inl e \<Rightarrow> Inl e
         | Inr sim \<Rightarrow>
             Inr (v\<lparr>drawn := ArrowMarker # map LinkLine (sim_links sim)
                               @ map (\<lambda>n. NodeGroup (node_id n) (category n)) (sim_nodes sim),
                    view_simulation := Some sim\<rparr>)))"

definition graphCleanup :: "graphView \<Rightarrow> graphView" where
  "graphCleanup v = v\<lparr>view_simulation := map_option (\<lambda>s. s\<lparr>running := False\<rparr>) (view_simulation v)\<rparr>"


section \<open>Predicates of the properties\<close>

text \<open>
  A node is in bounds when both coordinates are finite numbers inside the container less
  the margin of 20 on every side. A node is finite when its coordinates and its pin, if
  set, are finite numbers. A coordinate is clamped or NaN when it is a finite number
  inside the extent less the margin, or NaN; an infinity is neither.
\<close>

definition in_bounds :: "real \<Rightarrow> real \<Rightarrow> simNode \<Rightarrow> bool" where
  "in_bounds width height n =
     (case (pos_x n, pos_y n) of
        (Fin x, Fin y) \<Rightarrow> 20 \<le> x \<and> x \<le> width - 20 \<and> 20 \<le> y \<and> y \<le> height - 20
      | _ \<Rightarrow> False)"




section \<open>Concrete inputs\<close>

text \<open>Library parameters used where a property is evaluated on a concrete graph: the
  documented starting values of the cooling state, a decay rate of 0.0228 and seed
  positions on a row.\<close>

definition demoDefaults :: simDefaults where
  "demoDefaults = \<lparr>alpha0 = 1, alphaMin0 = 1 / 1000, alphaDecay0 = 228 / 10000,
                    seed_x = (\<lambda>i. 10 * real i), seed_y = (\<lambda>i. 5)\<rparr>"

text \<open>A force function that exerts nothing, and the simulation and the view built from
  two nodes, one edge between them and one dangling edge, in a 600 by 400 container.\<close>

definition noForce :: forces where
  "noForce s n = (Fin 0, Fin 0)"



definition demoGraph :: simulation where
  "demoGraph =
     \<lparr>sim_nodes =
        [\<lparr>node_id = ''react'', category = Framework, pos_x = Fin 0, pos_y = Fin 5,
          vel_x = Fin 0, vel_y = Fin 0, fx = None, fy = None\<rparr>,
         \<lparr>node_id = ''vite'', category = Tool, pos_x = Fin 10, pos_y = Fin 5,
          vel_x = Fin 0, vel_y = Fin 0, fx = None, fy = None\<rparr>],
      sim_links = [\<lparr>source = ''react'', target = ''vite''\<rparr>],
      link_distance = 100, charge_strength = - 300, center_x = 300, center_y = 200,
      collide_radius = 30, alpha = 1, alphaMin = 1 / 1000, alphaDecay = 228 / 10000,
      alphaTarget = 0, running = True\<rparr>"

definition demoView :: graphView where
  "demoView =
     \<lparr>svgRef = True,
      drawn = [ArrowMarker, LinkLine \<lparr>source = ''react'', target = ''vite''\<rparr>,
               NodeGroup ''react'' Framework, NodeGroup ''vite'' Tool],
      view_simulation = Some demoGraph\<rparr>"


section \<open>Properties of the zoom hook\<close>

lemma identity_translate_scale:
  "transform_scale (transform_translate zoomIdentity x y) k =
     \<lparr>scale = k, translateX = x, translateY = y\<rparr>" if "x \<noteq> NaN" "y \<noteq> NaN" "k \<noteq> NaN"
  using that
  by (cases x; cases y; cases k)
     (auto simp: transform_scale_def transform_translate_def zoomIdentity_def)

lemma initialTransform_positive:
  assumes "0 < box_width b" and "0 < box_height b"
  shows "initialTransform r b =
    (let s = min (min ((rect_width r - 40) / box_width b) ((rect_height r - 40) / box_height b)) 1
     in \<lparr>scale = Fin s,
         translateX = Fin ((rect_width r - box_width b * s) / 2 - box_x b * s),
         translateY = Fin ((rect_height r - box_height b * s) / 2 - box_y b * s)\<rparr>)"
  using assms
  by (simp add: initialTransform_def Let_def js_sub_def identity_translate_scale)

lemma fit_positive_box:
  assumes "0 < box_width b" and "0 < box_height b"
  shows "fit r b = Some (initialTransform r b)"
  using assms by (simp add: fit_def useD3Zoom_effect_def Let_def)

text \<open>
  C1, as the code has it. For content of positive width and height the fit is
  \<open>scale = min ((W - 40) / w) ((H - 40) / h)\<close> capped at 1, with the padding 40 subtracted
  once (not twice), and \<open>translateX = (W - w * scale) / 2 - x * scale\<close>, symmetric for Y.
\<close>

theorem fit_scale_translate:
  assumes "0 < box_width b" and "0 < box_height b"
  shows "fit r b =
    (let s = min (min ((rect_width r - 40) / box_width b) ((rect_height r - 40) / box_height b)) 1
     in Some \<lparr>scale = Fin s,
              translateX = Fin ((rect_width r - box_width b * s) / 2 - box_x b * s),
              translateY = Fin ((rect_height r - box_height b * s) / 2 - box_y b * s)\<rparr>)"
  using fit_positive_box [OF assms, of r] initialTransform_positive [OF assms, of r]
  by (simp add: Let_def)

theorem fit_scale_translate_witness:
  "(0::real) < 400 \<and>
   fit \<lparr>rect_width = 800, rect_height = 400\<rparr>
       \<lparr>box_x = 0, box_y = 0, box_width = 400, box_height = 400\<rparr>
     = Some \<lparr>scale = Fin (9 / 10), translateX = Fin 220, translateY = Fin 20\<rparr>"
  using fit_scale_translate [of "\<lparr>box_x = 0, box_y = 0, box_width = 400, box_height = 400\<rparr>"
      "\<lparr>rect_width = 800, rect_height = 400\<rparr>"]
  by (simp add: Let_def)

theorem fit_example_counterexample:
  "fit \<lparr>rect_width = 800, rect_height = 400\<rparr>
       \<lparr>box_x = 0, box_y = 0, box_width = 400, box_height = 400\<rparr>
     \<noteq> Some \<lparr>scale = Fin (8 / 10), translateX = Fin 240, translateY = Fin 40\<rparr>"
  by (simp add: fit_def useD3Zoom_effect_def initialTransform_def Let_def js_sub_def
      transform_scale_def transform_translate_def zoomIdentity_def freshHook_def)

text \<open>
  C4. When the content box has zero width or zero height, the fit of a freshly rendered
  diagram is the identity transform: the effect returns before any division.
\<close>

theorem fit_degenerate_identity:
  assumes "box_width b = 0 \<or> box_height b = 0"
  shows "fit r b = Some zoomIdentity"
  using assms
  by (auto simp: fit_def useD3Zoom_effect_def freshHook_def defaultTransform_def)

theorem fit_degenerate_identity_witness:
  "fit \<lparr>rect_width = 800, rect_height = 400\<rparr>
       \<lparr>box_x = 5, box_y = 7, box_width = 0, box_height = 300\<rparr>
     = Some \<lparr>scale = Fin 1, translateX = Fin 0, translateY = Fin 0\<rparr>"
  using fit_degenerate_identity [of "\<lparr>box_x = 5, box_y = 7, box_width = 0, box_height = 300\<rparr>"
      "\<lparr>rect_width = 800, rect_height = 400\<rparr>"]
  by (simp add: zoomIdentity_def)

lemma resetTransform_eq: "resetTransform r b = initialTransform r b"
  by (simp add: resetTransform_def initialTransform_def Let_def)

lemma reset_eq_fit_nondegenerate:
  assumes "box_width b \<noteq> 0" and "box_height b \<noteq> 0"
  shows "reset r b = fit r b"
  using assms
  by (simp add: reset_def fit_def resetZoom_def useD3Zoom_effect_def Let_def resetTransform_eq)

text \<open>
  C5. On a content box of zero size \<open>resetZoom\<close> does not rest where a fresh fit does: the
  effect skips the centring, \<open>resetZoom\<close> has no such test and divides by the zero width
  or height. For the box \<open>{0, 0, 0, 0}\<close> in an 800 by 400 container the fit is the identity
  and the reset rests at scale 1, translation (400, 200); in a container 40 wide, a box of
  zero width makes every field of the reset transform NaN.
\<close>

theorem reset_degenerate_differs:
  "reset \<lparr>rect_width = 800, rect_height = 400\<rparr>
         \<lparr>box_x = 0, box_y = 0, box_width = 0, box_height = 0\<rparr>
     = Some \<lparr>scale = Fin 1, translateX = Fin 400, translateY = Fin 200\<rparr>
   \<and> fit \<lparr>rect_width = 800, rect_height = 400\<rparr>
         \<lparr>box_x = 0, box_y = 0, box_width = 0, box_height = 0\<rparr>
     = Some \<lparr>scale = Fin 1, translateX = Fin 0, translateY = Fin 0\<rparr>
   \<and> reset \<lparr>rect_width = 40, rect_height = 400\<rparr>
         \<lparr>box_x = 0, box_y = 0, box_width = 0, box_height = 100\<rparr>
     = Some \<lparr>scale = NaN, translateX = NaN, translateY = NaN\<rparr>"
  by (simp add: reset_def fit_def resetZoom_def useD3Zoom_effect_def Let_def resetTransform_def
      js_sub_def transform_scale_def transform_translate_def zoomIdentity_def freshHook_def
      defaultTransform_def)

lemma clamp_extent:
  assumes "v \<noteq> NaN" "lo \<le> hi"
  shows "\<exists>k. js_max (Fin lo) (js_min (Fin hi) v) = Fin k \<and> lo \<le> k \<and> k \<le> hi"
  using assms by (cases v) auto

text \<open>
  C7, as the code has it. For content of positive size the scale after the initial fit and
  after a reset is at most 1 (so below the upper bound 8), and it is positive exactly when
  the container is wider and taller than the padding 40; it is not kept above the lower
  bound 0.1. After a wheel gesture on a transform whose scale is a number, the scale lies
  within the scale extent [0.1, 8]. A pan gesture leaves the scale as it is.
\<close>

theorem view_scale_bounds:
  assumes "0 < box_width b" and "0 < box_height b" and "scale t \<noteq> NaN" and "0 < factor"
  shows "(\<exists>s. map_option scale (fit r b) = Some (Fin s) \<and> s \<le> 1 \<and>
              (0 < s \<longleftrightarrow> 40 < rect_width r \<and> 40 < rect_height r))
       \<and> (\<exists>s. map_option scale (reset r b) = Some (Fin s) \<and> s \<le> 1 \<and>
              (0 < s \<longleftrightarrow> 40 < rect_width r \<and> 40 < rect_height r))
       \<and> (\<exists>k. scale (wheelZoom factor p t) = Fin k \<and> fst scaleExtent \<le> k \<and> k \<le> snd scaleExtent)
       \<and> scale (panBy delta t) = scale t"
proof -
  let ?s = "min (min ((rect_width r - 40) / box_width b) ((rect_height r - 40) / box_height b)) 1"
  have fit_s: "map_option scale (fit r b) = Some (Fin ?s)"
    using fit_positive_box [OF assms(1,2), of r] initialTransform_positive [OF assms(1,2), of r]
    by (simp add: Let_def)
  have reset_s: "map_option scale (reset r b) = Some (Fin ?s)"
    using fit_s reset_eq_fit_nondegenerate [of b r] assms(1,2) by simp
  have le1: "?s \<le> 1" by simp
  have pos: "0 < ?s \<longleftrightarrow> 40 < rect_width r \<and> 40 < rect_height r"
    using assms(1,2) by (simp add: zero_less_divide_iff)
  have mul: "js_mul (scale t) (Fin factor) \<noteq> NaN"
    using assms(3,4) by (cases "scale t") auto
  have wheel: "\<exists>k. scale (wheelZoom factor p t) = Fin k \<and> fst scaleExtent \<le> k \<and> k \<le> snd scaleExtent"
    using clamp_extent [OF mul, of "fst scaleExtent" "snd scaleExtent"]
    by (simp add: wheelZoom_def Let_def scaleExtent_def)
  have pan: "scale (panBy delta t) = scale t"
    by (simp add: panBy_def)
  from fit_s reset_s le1 pos wheel pan show ?thesis by blast
qed

theorem view_scale_bounds_witness:
  "map_option scale (fit \<lparr>rect_width = 800, rect_height = 400\<rparr>
       \<lparr>box_x = 0, box_y = 0, box_width = 400, box_height = 400\<rparr>) = Some (Fin (9 / 10))
   \<and> map_option scale (reset \<lparr>rect_width = 800, rect_height = 400\<rparr>
       \<lparr>box_x = 0, box_y = 0, box_width = 400, box_height = 400\<rparr>) = Some (Fin (9 / 10))
   \<and> scale (wheelZoom 16 (100, 50) \<lparr>scale = Fin (9 / 10), translateX = Fin 220, translateY = Fin 20\<rparr>) = Fin 8
   \<and> scale (panBy (5, 5) \<lparr>scale = Fin (9 / 10), translateX = Fin 220, translateY = Fin 20\<rparr>) = Fin (9 / 10)"
  using view_scale_bounds [of "\<lparr>box_x = 0, box_y = 0, box_width = 400, box_height = 400\<rparr>"
      "\<lparr>scale = Fin (9 / 10), translateX = Fin 220, translateY = Fin 20\<rparr>" 16
      "\<lparr>rect_width = 800, rect_height = 400\<rparr>" "(100, 50)" "(5, 5)"]
  by (simp add: fit_def reset_def resetZoom_def useD3Zoom_effect_def Let_def resetTransform_def
      initialTransform_def js_sub_def transform_scale_def transform_translate_def zoomIdentity_def
      freshHook_def defaultTransform_def wheelZoom_def scaleExtent_def panBy_def)

theorem fit_scale_counterexample:
  "map_option scale (fit \<lparr>rect_width = 800, rect_height = 400\<rparr>
       \<lparr>box_x = 0, box_y = 0, box_width = 10000, box_height = 10000\<rparr>) = Some (Fin (9 / 250))
   \<and> 9 / 250 < fst scaleExtent
   \<and> map_option scale (fit \<lparr>rect_width = 30, rect_height = 400\<rparr>
       \<lparr>box_x = 0, box_y = 0, box_width = 100, box_height = 100\<rparr>) = Some (Fin (- 1 / 10))"
  by (simp add: fit_def useD3Zoom_effect_def Let_def
      initialTransform_def js_sub_def transform_scale_def transform_translate_def zoomIdentity_def
      freshHook_def defaultTransform_def scaleExtent_def)


section \<open>Properties of the graph model\<close>

lemma node_id_cloneNode: "map node_id (map (cloneNode d) (enumerate k nodes)) = map node_id nodes"
  by (induction nodes arbitrary: k) (simp_all add: cloneNode_def)

lemma forceLink_filtered:
  "forceLink ns (filter (\<lambda>l. source l \<in> set (map node_id ns) \<and> target l \<in> set (map node_id ns)) links)
     = Inr (filter (\<lambda>l. source l \<in> set (map node_id ns) \<and> target l \<in> set (map node_id ns)) links)"
proof -
  have "find (\<lambda>l. source l \<notin> set (map node_id ns) \<or> target l \<notin> set (map node_id ns))
          (filter (\<lambda>l. source l \<in> set (map node_id ns) \<and> target l \<in> set (map node_id ns)) links) = None"
    by (simp add: find_None_iff)
  then show ?thesis by (simp add: forceLink_def Let_def)
qed

lemma buildSimulation_Inr:
  "buildSimulation d w h nodes links =
     Inr \<lparr>sim_nodes = map (cloneNode d) (enumerate 0 nodes),
          sim_links = filter (\<lambda>l. source l \<in> set (map node_id nodes) \<and> target l \<in> set (map node_id nodes)) links,
          link_distance = 100, charge_strength = - 300,
          center_x = w / 2, center_y = h / 2, collide_radius = 30,
          alpha = alpha0 d, alphaMin = alphaMin0 d, alphaDecay = alphaDecay0 d,
          alphaTarget = 0, running = True\<rparr>"
  using forceLink_filtered [of "map (cloneNode d) (enumerate 0 nodes)" links]
  unfolding buildSimulation_def Let_def node_id_cloneNode
  by simp

text \<open>
  C2, as the code has it. Building the simulation never fails, whatever the node and edge
  lists: there is no validation of node ids, and a list with a duplicate id is accepted
  like any other. Every input node is cloned into the simulation, in input order.
\<close>

theorem build_never_fails:
  "\<exists>s. buildSimulation d w h nodes links = Inr s
       \<and> map node_id (sim_nodes s) = map node_id nodes
       \<and> map category (sim_nodes s) = map category nodes"
proof -
  have ids: "map (node_id \<circ> cloneNode d) (enumerate k nodes) = map node_id nodes" for k
    by (induction nodes arbitrary: k) (simp_all add: cloneNode_def)
  have cats: "map (category \<circ> cloneNode d) (enumerate k nodes) = map category nodes" for k
    by (induction nodes arbitrary: k) (simp_all add: cloneNode_def)
  show ?thesis
    by (simp add: buildSimulation_Inr ids cats)
qed

theorem build_never_fails_witness:
  "\<exists>s. buildSimulation demoDefaults 600 400
          [\<lparr>node_id = ''react'', category = Framework\<rparr>, \<lparr>node_id = ''react'', category = Library\<rparr>] []
        = Inr s
       \<and> map node_id (sim_nodes s) = [''react'', ''react'']
       \<and> map category (sim_nodes s) = [Framework, Library]"
  using build_never_fails [of demoDefaults 600 400
      "[\<lparr>node_id = ''react'', category = Framework\<rparr>, \<lparr>node_id = ''react'', category = Library\<rparr>]" "[]"]
  by simp

theorem build_duplicate_counterexample:
  "\<not> distinct (map node_id
        [\<lparr>node_id = ''react'', category = Framework\<rparr>, \<lparr>node_id = ''react'', category = Library\<rparr>])
   \<and> \<not> isl (buildSimulation demoDefaults 600 400
        [\<lparr>node_id = ''react'', category = Framework\<rparr>, \<lparr>node_id = ''react'', category = Library\<rparr>] [])"
  by (simp add: buildSimulation_def forceLink_def Let_def)

text \<open>
  C3. Building the simulation succeeds on edges whose source or target id no node has, and
  the simulation's links are exactly the input edges, in order, whose source id and target
  id both occur among the node ids: the filter runs before the link force resolves the
  endpoints, so the link force never throws.
\<close>

theorem build_drops_dangling_edges:
  "\<exists>s. buildSimulation d w h nodes links = Inr s
       \<and> sim_links s = filter (\<lambda>l. source l \<in> set (map node_id nodes)
                                  \<and> target l \<in> set (map node_id nodes)) links"
  by (simp add: buildSimulation_Inr)

theorem build_drops_dangling_edges_witness:
  "\<exists>s. buildSimulation demoDefaults 600 400
          [\<lparr>node_id = ''react'', category = Framework\<rparr>, \<lparr>node_id = ''vite'', category = Tool\<rparr>]
          [\<lparr>source = ''react'', target = ''vite''\<rparr>, \<lparr>source = ''react'', target = ''d3''\<rparr>,
           \<lparr>source = ''mermaid'', target = ''vite''\<rparr>]
        = Inr s
       \<and> sim_links s = [\<lparr>source = ''react'', target = ''vite''\<rparr>]"
  using build_drops_dangling_edges [of demoDefaults 600 400
      "[\<lparr>node_id = ''react'', category = Framework\<rparr>, \<lparr>node_id = ''vite'', category = Tool\<rparr>]"
      "[\<lparr>source = ''react'', target = ''vite''\<rparr>, \<lparr>source = ''react'', target = ''d3''\<rparr>,
        \<lparr>source = ''mermaid'', target = ''vite''\<rparr>]"]
  by simp

text \<open>Without the filter the link force would throw on a dangling edge.\<close>

lemma forceLink_dangling:
  "forceLink [\<lparr>node_id = ''react'', category = Framework, pos_x = Fin 0, pos_y = Fin 0,
               vel_x = Fin 0, vel_y = Fin 0, fx = None, fy = None\<rparr>]
             [\<lparr>source = ''react'', target = ''d3''\<rparr>] = Inl (NodeNotFound ''d3'')"
  by (simp add: forceLink_def)

lemma demoGraph_built:
  "buildSimulation demoDefaults 600 400
     [\<lparr>node_id = ''react'', category = Framework\<rparr>, \<lparr>node_id = ''vite'', category = Tool\<rparr>]
     [\<lparr>source = ''react'', target = ''vite''\<rparr>, \<lparr>source = ''react'', target = ''d3''\<rparr>]
   = Inr demoGraph"
  by (simp add: buildSimulation_Inr demoGraph_def demoDefaults_def cloneNode_def)

lemma demoView_drawn:
  "graphEffect demoDefaults \<lparr>svgRef = True, drawn = [], view_simulation = None\<rparr>
     \<lparr>dim_width = 600, dim_height = 400\<rparr>
     [\<lparr>node_id = ''react'', category = Framework\<rparr>, \<lparr>node_id = ''vite'', category = Tool\<rparr>]
     [\<lparr>source = ''react'', target = ''vite''\<rparr>, \<lparr>source = ''react'', target = ''d3''\<rparr>]
   = Inr demoView"
  by (simp add: graphEffect_def demoGraph_built demoView_def) (simp add: demoGraph_def)

text \<open>
  C10. With an empty node list the effect returns the component's state as it is: nothing
  drawn is removed and no simulation is built. This also holds after the cleanup of the
  previous effect, which only stops the old simulation: what is drawn and the node
  positions stay.
\<close>

theorem empty_nodes_effect_unchanged:
  "graphEffect d v dims [] links = Inr v
   \<and> graphEffect d (graphCleanup v) dims [] links = Inr (graphCleanup v)
   \<and> drawn (graphCleanup v) = drawn v
   \<and> map_option sim_nodes (view_simulation (graphCleanup v)) = map_option sim_nodes (view_simulation v)"
  by (cases "view_simulation v") (simp_all add: graphEffect_def graphCleanup_def)

theorem empty_nodes_effect_unchanged_witness:
  "graphEffect demoDefaults demoView \<lparr>dim_width = 600, dim_height = 400\<rparr> []
       [\<lparr>source = ''react'', target = ''vite''\<rparr>] = Inr demoView
   \<and> drawn (graphCleanup demoView) =
       [ArrowMarker, LinkLine \<lparr>source = ''react'', target = ''vite''\<rparr>,
        NodeGroup ''react'' Framework, NodeGroup ''vite'' Tool]
   \<and> map_option sim_nodes (view_simulation (graphCleanup demoView)) = Some (sim_nodes demoGraph)"
  using empty_nodes_effect_unchanged [of demoDefaults demoView "\<lparr>dim_width = 600, dim_height = 400\<rparr>"
      "[\<lparr>source = ''react'', target = ''vite''\<rparr>]"]
  by (simp add: demoView_def)

lemma graphEffect_nonempty:
  assumes "svgRef v" and "nodes \<noteq> []"
  shows "\<exists>sim. buildSimulation d (dim_width dims) (dim_height dims) nodes links = Inr sim
     \<and> graphEffect d v dims nodes links =
        Inr (v\<lparr>drawn := ArrowMarker # map LinkLine (sim_links sim)
                          @ map (\<lambda>n. NodeGroup (node_id n) (category n)) (sim_nodes sim),
               view_simulation := Some sim\<rparr>)"
  using assms by (simp add: graphEffect_def buildSimulation_Inr)


section \<open>Properties of the simulation\<close>



lemma clampTo_inside:
  assumes "20 \<le> a" and "a \<le> e - 20"
  shows "clampTo e (Fin a) = Fin a"
  using assms by (simp add: clampTo_def)


lemma sim_nodes_timerStep:
  "sim_nodes (timerStep F w h s) =
     map (\<lambda>n. (moveNode (alpha s + (alphaTarget s - alpha s) * alphaDecay s) (F s n) n)
                 \<lparr>pos_x := clampTo w (pos_x (moveNode (alpha s + (alphaTarget s - alpha s) * alphaDecay s) (F s n) n)),
                  pos_y := clampTo h (pos_y (moveNode (alpha s + (alphaTarget s - alpha s) * alphaDecay s) (F s n) n))\<rparr>)
         (sim_nodes s)"
  by (simp add: timerStep_def onTick_def tick_def Let_def)





lemma length_iterate: "length (sim_nodes ((timerStep F w h ^^ k) s)) = length (sim_nodes s)"
  by (induction k) (simp_all add: sim_nodes_timerStep)







lemma timerStep_alpha:
  "alpha (timerStep F w h s) = alpha s + (alphaTarget s - alpha s) * alphaDecay s"
  by (simp add: timerStep_def onTick_def tick_def Let_def)

lemma timerStep_cooling:
  "alphaTarget (timerStep F w h s) = alphaTarget s"
  "alphaDecay (timerStep F w h s) = alphaDecay s"
  "alphaMin (timerStep F w h s) = alphaMin s"
  by (simp_all add: timerStep_def onTick_def tick_def Let_def)

lemma timerStep_running:
  "running (timerStep F w h s) \<longleftrightarrow>
     running s \<and> \<not> alpha s + (alphaTarget s - alpha s) * alphaDecay s < alphaMin s"
  by (simp add: timerStep_def onTick_def tick_def Let_def)

lemma runTimer_stops:
  assumes "alphaTarget s = 0" and "0 < alphaDecay s" and "alphaDecay s \<le> 1" and "0 < alphaMin s"
    and "alpha s * (1 - alphaDecay s) ^ n < alphaMin s"
  shows "\<exists>s'. runTimer F w h (Suc n) s = Some s' \<and> \<not> running s'"
  using assms
proof (induction n arbitrary: s)
  case 0
  have "alpha s * (1 - alphaDecay s) < alphaMin s"
  proof (cases "0 \<le> alpha s")
    case True
    then have "alpha s * (1 - alphaDecay s) \<le> alpha s * 1"
      using "0.prems"(2) by (intro mult_left_mono) auto
    with "0.prems"(5) show ?thesis by simp
  next
    case False
    then have "alpha s * (1 - alphaDecay s) \<le> 0"
      using "0.prems"(3) by (simp add: mult_le_0_iff)
    with "0.prems"(4) show ?thesis by simp
  qed
  then have "\<not> running (timerStep F w h s)"
    using "0.prems"(1) by (simp add: timerStep_running algebra_simps)
  then show ?case by simp
next
  case (Suc n)
  let ?t = "timerStep F w h s"
  have a: "alpha ?t = alpha s * (1 - alphaDecay s)"
    using Suc.prems(1) by (simp add: timerStep_alpha algebra_simps)
  have "alpha ?t * (1 - alphaDecay ?t) ^ n < alphaMin ?t"
    using Suc.prems(5) by (simp add: a timerStep_cooling mult.assoc)
  then have "\<exists>s'. runTimer F w h (Suc n) ?t = Some s' \<and> \<not> running s'"
    using Suc.prems(1-4) by (intro Suc.IH) (simp_all add: timerStep_cooling)
  then show ?case by (cases "running s") auto
qed

text \<open>
  C9. With a decay rate in (0, 1] and a positive stop threshold there is a number of steps,
  depending only on the starting \<open>alpha\<close>, the decay rate and the threshold, within which
  the timer of every freshly built simulation has stopped: whatever the nodes (coincident
  or not), the edges (none or many), the forces and the container.
\<close>

theorem simulation_stops_within_bound:
  assumes "0 < alphaDecay0 d" and "alphaDecay0 d \<le> 1" and "0 < alphaMin0 d"
  shows "\<exists>N. \<forall>F width height nodes links s0.
           buildSimulation d width height nodes links = Inr s0 \<longrightarrow>
           (\<exists>s'. runTimer F width height N s0 = Some s' \<and> \<not> running s')"
proof -
  have "\<exists>n. alpha0 d * (1 - alphaDecay0 d) ^ n < alphaMin0 d"
  proof (cases "0 < alpha0 d")
    case True
    then have "0 < alphaMin0 d / alpha0 d" using assms(3) by simp
    moreover have "1 - alphaDecay0 d < 1" using assms(1) by simp
    ultimately obtain n where "(1 - alphaDecay0 d) ^ n < alphaMin0 d / alpha0 d"
      using real_arch_pow_inv by blast
    with True have "alpha0 d * (1 - alphaDecay0 d) ^ n < alphaMin0 d"
      by (simp add: pos_less_divide_eq mult.commute)
    then show ?thesis ..
  next
    case False
    then have "alpha0 d * (1 - alphaDecay0 d) ^ 0 < alphaMin0 d" using assms(3) by simp
    then show ?thesis ..
  qed
  then obtain n where n: "alpha0 d * (1 - alphaDecay0 d) ^ n < alphaMin0 d" ..
  have "\<exists>s'. runTimer F width height (Suc n) s0 = Some s' \<and> \<not> running s'"
    if "buildSimulation d width height nodes links = Inr s0" for F width height nodes links s0
  proof -
    from that have "alphaTarget s0 = 0" "alphaDecay s0 = alphaDecay0 d"
        "alphaMin s0 = alphaMin0 d" "alpha s0 = alpha0 d"
      by (auto simp: buildSimulation_Inr)
    with assms n show ?thesis
      by (intro runTimer_stops) simp_all
  qed
  then show ?thesis by blast
qed

theorem simulation_stops_within_bound_witness:
  "\<exists>N s0 s'. buildSimulation demoDefaults 600 400
        [\<lparr>node_id = ''react'', category = Framework\<rparr>, \<lparr>node_id = ''react'', category = Framework\<rparr>] []
        = Inr s0
      \<and> runTimer noForce 600 400 N s0 = Some s' \<and> \<not> running s'"
proof -
  have "0 < alphaDecay0 demoDefaults" "alphaDecay0 demoDefaults \<le> 1" "0 < alphaMin0 demoDefaults"
    by (simp_all add: demoDefaults_def)
  from simulation_stops_within_bound [OF this] obtain N where
    N: "\<And>F width height nodes links s0.
           buildSimulation demoDefaults width height nodes links = Inr s0 \<Longrightarrow>
           (\<exists>s'. runTimer F width height N s0 = Some s' \<and> \<not> running s')"
    by blast
  obtain s0 where b: "buildSimulation demoDefaults 600 400
        [\<lparr>node_id = ''react'', category = Framework\<rparr>, \<lparr>node_id = ''react'', category = Framework\<rparr>] []
        = Inr s0"
    by (simp add: buildSimulation_Inr)
  from N [OF b, of noForce] b show ?thesis by blast
qed

lemma timerStep_pinned:
  assumes "i < length (sim_nodes s)"
    and "fx (sim_nodes s ! i) = Some px" and "fy (sim_nodes s ! i) = Some py"
  shows "pos_x (sim_nodes (timerStep F w h s) ! i) = clampTo w px"
    and "pos_y (sim_nodes (timerStep F w h s) ! i) = clampTo h py"
    and "vel_x (sim_nodes (timerStep F w h s) ! i) = Fin 0"
    and "vel_y (sim_nodes (timerStep F w h s) ! i) = Fin 0"
    and "fx (sim_nodes (timerStep F w h s) ! i) = Some px"
    and "fy (sim_nodes (timerStep F w h s) ! i) = Some py"
  using assms by (simp_all add: sim_nodes_timerStep moveNode_def Let_def)

lemma timerStep_unpinned:
  assumes "j < length (sim_nodes s)"
    and "fx (sim_nodes s ! j) = None" and "fy (sim_nodes s ! j) = None"
  shows "pos_x (sim_nodes (timerStep F w h s) ! j) =
           clampTo w (js_add (pos_x (sim_nodes s ! j))
             (js_mul (fst (F s (sim_nodes s ! j)))
                     (Fin (alpha s + (alphaTarget s - alpha s) * alphaDecay s))))"
    and "pos_y (sim_nodes (timerStep F w h s) ! j) =
           clampTo h (js_add (pos_y (sim_nodes s ! j))
             (js_mul (snd (F s (sim_nodes s ! j)))
                     (Fin (alpha s + (alphaTarget s - alpha s) * alphaDecay s))))"
  using assms by (simp_all add: sim_nodes_timerStep moveNode_def Let_def)

lemma iterate_pinned:
  assumes "i < length (sim_nodes s)"
    and "fx (sim_nodes s ! i) = Some px" and "fy (sim_nodes s ! i) = Some py"
  shows "pos_x (sim_nodes ((timerStep F w h ^^ Suc k) s) ! i) = clampTo w px
       \<and> pos_y (sim_nodes ((timerStep F w h ^^ Suc k) s) ! i) = clampTo h py
       \<and> vel_x (sim_nodes ((timerStep F w h ^^ Suc k) s) ! i) = Fin 0
       \<and> vel_y (sim_nodes ((timerStep F w h ^^ Suc k) s) ! i) = Fin 0
       \<and> fx (sim_nodes ((timerStep F w h ^^ Suc k) s) ! i) = Some px
       \<and> fy (sim_nodes ((timerStep F w h ^^ Suc k) s) ! i) = Some py"
proof (induction k)
  case 0
  show ?case using timerStep_pinned [OF assms] by simp
next
  case (Suc k)
  let ?t = "(timerStep F w h ^^ Suc k) s"
  have len: "i < length (sim_nodes ?t)"
    using assms(1) length_iterate [where k = "Suc k" and s = s] by simp
  from Suc have "fx (sim_nodes ?t ! i) = Some px" "fy (sim_nodes ?t ! i) = Some py" by blast+
  from timerStep_pinned [OF len this] show ?case by simp
qed

lemma drag_cooling:
  "alphaTarget (dragstarted e s) = (if active e = 0 then 3 / 10 else alphaTarget s)"
  "running (dragstarted e s) = (if active e = 0 then True else running s)"
  "alpha (dragstarted e s) = alpha s"
  "alphaTarget (dragged e s) = alphaTarget s"
  "alpha (dragged e s) = alpha s"
  "running (dragged e s) = running s"
  "alphaTarget (dragended e s) = (if active e = 0 then 0 else alphaTarget s)"
  "running (dragended e s) = running s"
  "alpha (dragended e s) = alpha s"
  by (simp_all add: dragstarted_def dragged_def dragended_def restart_def updateSubject_def Let_def)

lemma drag_pins:
  assumes "subject e < length (sim_nodes s)"
  shows "fx (sim_nodes (dragstarted e s) ! subject e) = Some (pos_x (sim_nodes s ! subject e))"
    and "fy (sim_nodes (dragstarted e s) ! subject e) = Some (pos_y (sim_nodes s ! subject e))"
    and "fx (sim_nodes (dragged e s) ! subject e) = Some (Fin (event_x e))"
    and "fy (sim_nodes (dragged e s) ! subject e) = Some (Fin (event_y e))"
    and "fx (sim_nodes (dragended e s) ! subject e) = None"
    and "fy (sim_nodes (dragended e s) ! subject e) = None"
  using assms
  by (simp_all add: dragstarted_def dragged_def dragended_def restart_def updateSubject_def Let_def)

text \<open>
  C8, as the code has it. While a node is pinned, after every timer step its position is
  the pin clamped by the tick handler into the container less the margin (the pin itself
  when it lies inside), its velocity is zero and the pin stays, whatever the forces; an
  unpinned node moves by the force on it times \<open>alpha\<close> and is clamped. Drag start pins the
  node where it is and, with no other gesture active, sets the alpha target to 0.3 and
  restarts the timer; dragging moves the pin to the pointer; drag end removes the pin and,
  with no other gesture active, sets the alpha target back to 0 without touching \<open>alpha\<close>
  or the timer: it does not reheat, the decay resumes.
\<close>

theorem pinned_node_holds_position:
  assumes "subject e < length (sim_nodes s)" and "active e = 0"
    and "fx (sim_nodes s ! subject e) = Some px" and "fy (sim_nodes s ! subject e) = Some py"
    and "j < length (sim_nodes s)"
    and "fx (sim_nodes s ! j) = None" and "fy (sim_nodes s ! j) = None"
  shows "pos_x (sim_nodes ((timerStep F w h ^^ Suc k) s) ! subject e) = clampTo w px
       \<and> pos_y (sim_nodes ((timerStep F w h ^^ Suc k) s) ! subject e) = clampTo h py
       \<and> vel_x (sim_nodes ((timerStep F w h ^^ Suc k) s) ! subject e) = Fin 0
       \<and> vel_y (sim_nodes ((timerStep F w h ^^ Suc k) s) ! subject e) = Fin 0
       \<and> fx (sim_nodes ((timerStep F w h ^^ Suc k) s) ! subject e) = Some px
       \<and> fy (sim_nodes ((timerStep F w h ^^ Suc k) s) ! subject e) = Some py
       \<and> (in_bounds w h ((sim_nodes s ! subject e)\<lparr>pos_x := px, pos_y := py\<rparr>) \<longrightarrow>
            clampTo w px = px \<and> clampTo h py = py)
       \<and> pos_x (sim_nodes (timerStep F w h s) ! j) =
            clampTo w (js_add (pos_x (sim_nodes s ! j))
              (js_mul (fst (F s (sim_nodes s ! j)))
                      (Fin (alpha s + (alphaTarget s - alpha s) * alphaDecay s))))
       \<and> pos_y (sim_nodes (timerStep F w h s) ! j) =
            clampTo h (js_add (pos_y (sim_nodes s ! j))
              (js_mul (snd (F s (sim_nodes s ! j)))
                      (Fin (alpha s + (alphaTarget s - alpha s) * alphaDecay s))))
       \<and> fx (sim_nodes (dragstarted e s) ! subject e) = Some (pos_x (sim_nodes s ! subject e))
       \<and> fy (sim_nodes (dragstarted e s) ! subject e) = Some (pos_y (sim_nodes s ! subject e))
       \<and> alphaTarget (dragstarted e s) = 3 / 10 \<and> running (dragstarted e s)
       \<and> fx (sim_nodes (dragged e s) ! subject e) = Some (Fin (event_x e))
       \<and> fy (sim_nodes (dragged e s) ! subject e) = Some (Fin (event_y e))
       \<and> fx (sim_nodes (dragended e s) ! subject e) = None
       \<and> fy (sim_nodes (dragended e s) ! subject e) = None
       \<and> alphaTarget (dragended e s) = 0
       \<and> alpha (dragended e s) = alpha s
       \<and> running (dragended e s) = running s"
proof -
  have inside: "in_bounds w h ((sim_nodes s ! subject e)\<lparr>pos_x := px, pos_y := py\<rparr>) \<longrightarrow>
            clampTo w px = px \<and> clampTo h py = py"
    by (cases px; cases py) (auto simp: in_bounds_def clampTo_inside)
  show ?thesis
    using iterate_pinned [OF assms(1,3,4), where F = F and w = w and h = h and k = k] inside
      timerStep_unpinned [OF assms(5,6,7), where F = F and w = w and h = h] drag_pins [OF assms(1)] assms(2)
    by (simp add: drag_cooling)
qed

theorem pinned_node_holds_position_witness:
  "pos_x (sim_nodes ((timerStep noForce 600 400 ^^ 3)
      (dragged \<lparr>active = 0, subject = 0, event_x = 300, event_y = 200\<rparr>
        (dragstarted \<lparr>active = 0, subject = 0, event_x = 300, event_y = 200\<rparr> demoGraph))) ! 0) = Fin 300
   \<and> pos_y (sim_nodes ((timerStep noForce 600 400 ^^ 3)
      (dragged \<lparr>active = 0, subject = 0, event_x = 300, event_y = 200\<rparr>
        (dragstarted \<lparr>active = 0, subject = 0, event_x = 300, event_y = 200\<rparr> demoGraph))) ! 0) = Fin 200
   \<and> alphaTarget (dragstarted \<lparr>active = 0, subject = 0, event_x = 300, event_y = 200\<rparr> demoGraph) = 3 / 10"
proof -
  let ?e = "\<lparr>active = 0, subject = 0, event_x = 300, event_y = 200\<rparr>"
  let ?s = "dragged ?e (dragstarted ?e demoGraph)"
  have nodes: "sim_nodes ?s =
      [\<lparr>node_id = ''react'', category = Framework, pos_x = Fin 0, pos_y = Fin 5,
        vel_x = Fin 0, vel_y = Fin 0, fx = Some (Fin 300), fy = Some (Fin 200)\<rparr>,
       \<lparr>node_id = ''vite'', category = Tool, pos_x = Fin 10, pos_y = Fin 5,
        vel_x = Fin 0, vel_y = Fin 0, fx = None, fy = None\<rparr>]"
    by (simp add: dragged_def dragstarted_def updateSubject_def restart_def demoGraph_def Let_def)
  have h: "subject ?e < length (sim_nodes ?s)" "active ?e = 0"
      "fx (sim_nodes ?s ! subject ?e) = Some (Fin 300)" "fy (sim_nodes ?s ! subject ?e) = Some (Fin 200)"
      "1 < length (sim_nodes ?s)" "fx (sim_nodes ?s ! 1) = None" "fy (sim_nodes ?s ! 1) = None"
    by (simp_all add: nodes)
  have t: "alphaTarget (dragstarted ?e demoGraph) = 3 / 10"
    by (simp add: drag_cooling)
  from pinned_node_holds_position [OF h, where F = noForce and w = 600 and h = 400 and k = 2] t
  show ?thesis
    by (simp add: clampTo_def numeral_3_eq_3)
qed

theorem pin_counterexample:
  "pos_x (sim_nodes (timerStep noForce 600 400
      (dragged \<lparr>active = 0, subject = 0, event_x = 700, event_y = 10\<rparr>
        (dragstarted \<lparr>active = 0, subject = 0, event_x = 700, event_y = 10\<rparr> demoGraph))) ! 0) = Fin 580
   \<and> pos_y (sim_nodes (timerStep noForce 600 400
      (dragged \<lparr>active = 0, subject = 0, event_x = 700, event_y = 10\<rparr>
        (dragstarted \<lparr>active = 0, subject = 0, event_x = 700, event_y = 10\<rparr> demoGraph))) ! 0) = Fin 20
   \<and> fx (sim_nodes (timerStep noForce 600 400
      (dragged \<lparr>active = 0, subject = 0, event_x = 700, event_y = 10\<rparr>
        (dragstarted \<lparr>active = 0, subject = 0, event_x = 700, event_y = 10\<rparr> demoGraph))) ! 0) = Some (Fin 700)
   \<and> alpha (dragended \<lparr>active = 0, subject = 0, event_x = 0, event_y = 5\<rparr>
        (dragstarted \<lparr>active = 0, subject = 0, event_x = 0, event_y = 5\<rparr>
          (demoGraph\<lparr>alpha := 9 / 10000, running := False\<rparr>))) = 9 / 10000
   \<and> alphaTarget (dragended \<lparr>active = 0, subject = 0, event_x = 0, event_y = 5\<rparr>
        (dragstarted \<lparr>active = 0, subject = 0, event_x = 0, event_y = 5\<rparr>
          (demoGraph\<lparr>alpha := 9 / 10000, running := False\<rparr>))) = 0
   \<and> \<not> running (timerStep noForce 600 400
        (dragended \<lparr>active = 0, subject = 0, event_x = 0, event_y = 5\<rparr>
          (dragstarted \<lparr>active = 0, subject = 0, event_x = 0, event_y = 5\<rparr>
            (demoGraph\<lparr>alpha := 9 / 10000, running := False\<rparr>))))"
  by (simp add: sim_nodes_timerStep timerStep_running drag_cooling
      dragged_def dragstarted_def dragended_def updateSubject_def restart_def demoGraph_def Let_def
      moveNode_def clampTo_def noForce_def)

end
